theory Spec2Isabelle
  imports Main
begin

section \<open>JavaScript values used by the plugin\<close>

text \<open>
  The public entry points of \<^verbatim>\<open>src/index.js\<close> inspect their \<^verbatim>\<open>cacheName\<close>
  argument with \<^verbatim>\<open>typeof\<close>, with truthiness (\<^verbatim>\<open>cacheName || defaultName\<close>) and
  use it as a property key of the plain objects \<^verbatim>\<open>caches\<close> and \<^verbatim>\<open>needsFlushing\<close>.
  The values below are the primitive JavaScript values; numbers are restricted to the
  integers (below the magnitude where JavaScript prints an exponent), for which the
  property key is the decimal numeral. Property keys that name a member of
  \<^verbatim>\<open>Object.prototype\<close> (such as \<^verbatim>\<open>constructor\<close>) are outside the model.
\<close>

datatype jsval = Undefined | Null | Bool bool | Num int | Str string

fun typeof :: "jsval \<Rightarrow> string" where
  "typeof Undefined = ''undefined''"
| "typeof Null = ''object''"
| "typeof (Bool b) = ''boolean''"
| "typeof (Num n) = ''number''"
| "typeof (Str s) = ''string''"

fun truthy :: "jsval \<Rightarrow> bool" where
  "truthy Undefined = False"
| "truthy Null = False"
| "truthy (Bool b) = b"
| "truthy (Num n) = (n \<noteq> 0)"
| "truthy (Str s) = (s \<noteq> [])"

definition digit_char :: "nat \<Rightarrow> char" where
  "digit_char d = ''0123456789'' ! d"

function string_of_nat :: "nat \<Rightarrow> string" where
  "string_of_nat n =
     (if n < 10 then [digit_char n] else string_of_nat (n div 10) @ [digit_char (n mod 10)])"
  by pat_completeness auto
termination
  by (relation "measure (\<lambda>n. n)") auto

declare string_of_nat.simps [simp del]

definition string_of_int :: "int \<Rightarrow> string" where
  "string_of_int i =
     (if i < 0 then CHR ''-'' # string_of_nat (nat (- i)) else string_of_nat (nat i))"

text \<open>The property key a value is converted to when it indexes an object.\<close>

fun to_key :: "jsval \<Rightarrow> string" where
  "to_key Undefined = ''undefined''"
| "to_key Null = ''null''"
| "to_key (Bool b) = (if b then ''true'' else ''false'')"
| "to_key (Num n) = string_of_int n"
| "to_key (Str s) = s"

text \<open>\<^verbatim>\<open>arguments[i]\<close>: a missing argument reads as \<^verbatim>\<open>undefined\<close>.\<close>

definition arg :: "jsval list \<Rightarrow> nat \<Rightarrow> jsval" where
  "arg args i = (if i < length args then args ! i else Undefined)"

section \<open>Arrays\<close>

text \<open>\<^verbatim>\<open>Array.prototype.indexOf\<close>: the first index of the element, or \<open>-1\<close>.\<close>

fun indexOf :: "'a list \<Rightarrow> 'a \<Rightarrow> int" where
  "indexOf [] x = - 1"
| "indexOf (y # ys) x =
     (if y = x then 0 else (let i = indexOf ys x in if i < 0 then - 1 else i + 1))"

text \<open>
  The start position of \<^verbatim>\<open>Array.prototype.splice\<close>: a negative start counts from the
  end, and the result is clamped to the array.
\<close>

definition splice_start :: "int \<Rightarrow> 'a list \<Rightarrow> nat" where
  "splice_start i xs =
     (if i < 0 then nat (max (int (length xs) + i) 0) else min (nat i) (length xs))"

text \<open>\<^verbatim>\<open>xs.splice(i, 0, x)\<close> and \<^verbatim>\<open>xs.splice(i, 1)\<close>.\<close>

definition splice_insert :: "int \<Rightarrow> 'a \<Rightarrow> 'a list \<Rightarrow> 'a list" where
  "splice_insert i x xs = (let k = splice_start i xs in take k xs @ [x] @ drop k xs)"

definition splice_delete1 :: "int \<Rightarrow> 'a list \<Rightarrow> 'a list" where
  "splice_delete1 i xs = (let k = splice_start i xs in take k xs @ drop (Suc k) xs)"

section \<open>Files, cache records and the module state\<close>

text \<open>
  A vinyl file as the plugin reads it: \<^verbatim>\<open>file.path\<close>, \<^verbatim>\<open>file.contents\<close> (a buffer, whose
  UTF-8 text is kept, a stream, or null) and the optional property \<^verbatim>\<open>file.checksum\<close>.
\<close>

datatype contents = Buffer string | Stream | NoContents

record vinyl =
  path :: string
  contents :: contents
  file_checksum :: "string option"

text \<open>An entry \<^verbatim>\<open>cacheFiles[id]\<close>: the object \<^verbatim>\<open>{checksum, data}\<close>, both possibly undefined.\<close>

record entry =
  checksum :: "string option"
  data :: "vinyl option"

text \<open>A cache object \<^verbatim>\<open>{order: [], files: {}, ended: true}\<close>.\<close>

record cache =
  order :: "string list"
  files :: "string \<rightharpoonup> entry"
  ended :: bool

type_synonym addr = nat

datatype stage = CachedStage | RememberStage

type_synonym stream = "nat \<times> stage"

text \<open>The events \<^verbatim>\<open>this.emit(pluginName + ':...', {...})\<close> with their payloads.\<close>

datatype notification =
    FileModified string string
  | CacheProcessed string bool
  | CacheFlush string bool
  | CacheNeedsFlushing string

datatype warning = CacheNotFound string | FileNotFound string string

text \<open>
  What the plugin does to the outside, in the order it does it: \<^verbatim>\<open>this.push(x)\<close> on a
  stream (the argument may be \<^verbatim>\<open>undefined\<close>), \<^verbatim>\<open>this.emit\<close>, the call of a stream's
  \<^verbatim>\<open>callback()\<close> (always without arguments in this plugin, so it adds nothing to the
  stream's output), and \<^verbatim>\<open>util.log\<close>.
\<close>

datatype event =
    Push stream "vinyl option"
  | Emit stream notification
  | Callback stream
  | Log warning

record options =
  useHash :: bool

text \<open>
  The closure of one call of \<^verbatim>\<open>gulpCachedRemember\<close>: the resolved \<^verbatim>\<open>cacheName\<close>, the
  reference \<^verbatim>\<open>cache\<close> (with it \<^verbatim>\<open>cacheOrder\<close> and \<^verbatim>\<open>cacheFiles\<close>, which alias its
  fields and are only ever mutated in place), \<^verbatim>\<open>isMaster\<close>, \<^verbatim>\<open>isNewCache\<close> and
  \<^verbatim>\<open>opts\<close>; \<open>rid\<close> identifies the pair of streams the call returns.
\<close>

record run =
  rid :: nat
  cacheName :: string
  cache :: addr
  isMaster :: bool
  isNewCache :: bool
  opts :: "options option"

text \<open>
  The module state: the objects \<^verbatim>\<open>caches\<close> and \<^verbatim>\<open>needsFlushing\<close>, the store of cache
  objects they and the closures refer to, and the trace of events so far. A queued
  \<^verbatim>\<open>flush.bind(this, callback)\<close> is kept as the closure it was bound in.
\<close>

record world =
  heap :: "addr \<Rightarrow> cache"
  nextAddr :: addr
  caches :: "string \<rightharpoonup> addr"
  needsFlushing :: "string \<rightharpoonup> run list"
  nextRid :: nat
  trace :: "event list"

datatype error = PluginError | TypeError | WriteAfterEnd | NoSuchRun

definition defaultName :: string where
  "defaultName = ''_default''"

definition emptyCache :: cache where
  "emptyCache = \<lparr>order = [], files = Map.empty, ended = True\<rparr>"

definition init_world :: world where
  "init_world = \<lparr>heap = (\<lambda>a. emptyCache), nextAddr = 0, caches = Map.empty,
     needsFlushing = Map.empty, nextRid = 0, trace = []\<rparr>"

section \<open>gulpCachedRemember\<close>

definition gulpCachedRemember ::
  "jsval \<Rightarrow> options option \<Rightarrow> world \<Rightarrow> error + (run \<times> world)" where
  "gulpCachedRemember cacheNameArg optsArg w =
     (if cacheNameArg \<noteq> Undefined \<and> typeof cacheNameArg \<noteq> ''number''
           \<and> typeof cacheNameArg \<noteq> ''string''
      then Inl PluginError
      else
        let name = to_key (if truthy cacheNameArg then cacheNameArg else Str defaultName);
            isNew = (caches w name = None);
            w1 = (if isNew
                  then w\<lparr>heap := (heap w)(nextAddr w := emptyCache),
                         nextAddr := Suc (nextAddr w),
                         caches := (caches w)(name \<mapsto> nextAddr w),
                         needsFlushing := (needsFlushing w)(name \<mapsto> [])\<rparr>
                  else w)
        in (case caches w1 name of
              None \<Rightarrow> Inl TypeError
            | Some a \<Rightarrow>
                let c = heap w1 a;
                    isM = ended c;
                    w2 = (if isM then w1\<lparr>heap := (heap w1)(a := c\<lparr>ended := False\<rparr>)\<rparr> else w1)
                in Inr (\<lparr>rid = nextRid w, cacheName = name, cache = a, isMaster = isM,
                          isNewCache = isNew, opts = optsArg\<rparr>,
                        w2\<lparr>nextRid := Suc (nextRid w)\<rparr>)))"

section \<open>getChecksum\<close>

text \<open>Truthiness of a value that is a string or undefined.\<close>

definition truthy_str :: "string option \<Rightarrow> bool" where
  "truthy_str v = (case v of None \<Rightarrow> False | Some s \<Rightarrow> s \<noteq> [])"

text \<open>
  \<open>md5\<close> stands for \<^verbatim>\<open>crypto.createHash('md5').update(s).digest('hex')\<close>, a
  parameter of the model.
\<close>

definition getChecksum :: "(string \<Rightarrow> string) \<Rightarrow> vinyl \<Rightarrow> bool \<Rightarrow> string option" where
  "getChecksum md5 f useHashArg =
     (let chk = file_checksum f in
      if \<not> truthy_str chk then
        (case contents f of
           Buffer s \<Rightarrow> (if useHashArg then Some (md5 s) else Some s)
         | _ \<Rightarrow> chk)
      else chk)"

section \<open>The Cache Stage\<close>

definition optsUseHash :: "options option \<Rightarrow> bool" where
  "optsUseHash os = (case os of None \<Rightarrow> False | Some x \<Rightarrow> useHash x)"

text \<open>
  \<^verbatim>\<open>caching(file, enc, callback)\<close>. \<^verbatim>\<open>previousFile\<close> is a \<^verbatim>\<open>var\<close> of the function
  body, so it is undefined whenever line 67 reads it; the assignment on line 87 writes the
  local of the call that is about to return.
\<close>

definition caching :: "(string \<Rightarrow> string) \<Rightarrow> run \<Rightarrow> vinyl \<Rightarrow> world \<Rightarrow> error + world" where
  "caching md5 r f w =
     (let ident = path f;
          previousFile = (None :: vinyl option);
          this = (rid r, CachedStage)
      in
      if \<not> isMaster r then Inr (w\<lparr>trace := trace w @ [Callback this]\<rparr>)
      else
        let c0 = (heap w (cache r))\<lparr>ended := False\<rparr>;
            chk = getChecksum md5 f (optsUseHash (opts r));
            c1 = (if files c0 ident = None then
                    (let newOrder =
                       (if isNewCache r then order c0 @ [ident]
                        else
                          (let newPos = (case previousFile of
                                           None \<Rightarrow> 0
                                         | Some pf \<Rightarrow> indexOf (order c0) (path pf) + 1)
                           in splice_insert newPos ident (order c0)))
                     in c0\<lparr>order := newOrder,
                           files := (files c0)(ident \<mapsto> \<lparr>checksum = None, data = None\<rparr>)\<rparr>)
                  else c0)
        in
          if files c1 ident = None \<or> \<not> truthy_str chk
               \<or> Some chk \<noteq> map_option checksum (files c1 ident)
          then
            (case files c1 ident of
               None \<Rightarrow> Inl TypeError
             | Some e \<Rightarrow>
                 let c2 = c1\<lparr>files := (files c1)(ident \<mapsto> e\<lparr>checksum := chk\<rparr>)\<rparr>;
                     evs = [Push this (Some f)] @
                           (if \<not> isNewCache r
                            then [Emit this (FileModified (cacheName r) ident)] else [])
                 in Inr (w\<lparr>heap := (heap w)(cache r := c2),
                           trace := trace w @ evs @ [Callback this]\<rparr>))
          else Inr (w\<lparr>heap := (heap w)(cache r := c1), trace := trace w @ [Callback this]\<rparr>))"

text \<open>\<^verbatim>\<open>endCaching(callback)\<close>: the closure's \<^verbatim>\<open>isNewCache\<close> is reset by a master.\<close>

definition endCaching :: "run \<Rightarrow> world \<Rightarrow> run \<times> world" where
  "endCaching r w =
     ((if isMaster r then r\<lparr>isNewCache := False\<rparr> else r),
      w\<lparr>trace := trace w @ [Callback (rid r, CachedStage)]\<rparr>)"

section \<open>The Remember Stage\<close>

text \<open>
  \<^verbatim>\<open>remember(file, enc, callback)\<close>: reading \<^verbatim>\<open>cacheFiles[file.path]\<close> gives undefined
  when there is no entry, and the assignment to its \<^verbatim>\<open>data\<close> then throws a TypeError.
\<close>

definition remember :: "run \<Rightarrow> vinyl \<Rightarrow> world \<Rightarrow> error + world" where
  "remember r f w =
     (let this = (rid r, RememberStage) in
      if isMaster r then
        (let c = heap w (cache r) in
         case files c (path f) of
           None \<Rightarrow> Inl TypeError
         | Some e \<Rightarrow>
             Inr (w\<lparr>heap := (heap w)(cache r := c\<lparr>files := (files c)(path f \<mapsto> e\<lparr>data := Some f\<rparr>)\<rparr>),
                    trace := trace w @ [Callback this]\<rparr>))
      else Inr (w\<lparr>trace := trace w @ [Callback this]\<rparr>))"

text \<open>
  The \<^verbatim>\<open>forEach\<close> of \<^verbatim>\<open>flush\<close>: one \<^verbatim>\<open>this.push(cacheFiles[filePath].data)\<close> for each
  element of \<^verbatim>\<open>cacheOrder\<close>.
\<close>

fun flush_pushes :: "stream \<Rightarrow> cache \<Rightarrow> string list \<Rightarrow> error + event list" where
  "flush_pushes this c [] = Inr []"
| "flush_pushes this c (filePath # rest) =
     (case files c filePath of
        None \<Rightarrow> Inl TypeError
      | Some e \<Rightarrow>
          (case flush_pushes this c rest of
             Inl err \<Rightarrow> Inl err
           | Inr evs \<Rightarrow> Inr (Push this (data e) # evs)))"

definition flush :: "run \<Rightarrow> world \<Rightarrow> error + world" where
  "flush r w =
     (let this = (rid r, RememberStage); c = heap w (cache r) in
      case flush_pushes this c (order c) of
        Inl err \<Rightarrow> Inl err
      | Inr evs \<Rightarrow>
          Inr (w\<lparr>trace := trace w @ evs @
                  [Emit this (CacheFlush (cacheName r) (isMaster r)), Callback this]\<rparr>))"

text \<open>\<^verbatim>\<open>needsFlushing[cacheName].forEach(function (fn) { fn(); })\<close>.\<close>

fun flush_all :: "run list \<Rightarrow> world \<Rightarrow> error + world" where
  "flush_all [] w = Inr w"
| "flush_all (fn # fns) w =
     (case flush fn w of Inl err \<Rightarrow> Inl err | Inr w' \<Rightarrow> flush_all fns w')"

definition endRemember :: "run \<Rightarrow> world \<Rightarrow> error + world" where
  "endRemember r w =
     (let this = (rid r, RememberStage) in
      if isMaster r \<or> ended (heap w (cache r)) then
        (case flush r (w\<lparr>trace := trace w @
                           [Emit this (CacheProcessed (cacheName r) (isMaster r))]\<rparr>) of
           Inl err \<Rightarrow> Inl err
         | Inr w1 \<Rightarrow>
             let w2 = w1\<lparr>heap := (heap w1)(cache r := (heap w1 (cache r))\<lparr>ended := True\<rparr>)\<rparr> in
             (case needsFlushing w2 (cacheName r) of
                None \<Rightarrow> Inl TypeError
              | Some q \<Rightarrow>
                  if q \<noteq> [] then
                    (case flush_all q w2 of
                       Inl err \<Rightarrow> Inl err
                     | Inr w3 \<Rightarrow>
                         Inr (w3\<lparr>needsFlushing := (needsFlushing w3)(cacheName r \<mapsto> [])\<rparr>))
                  else Inr w2))
      else
        (case needsFlushing w (cacheName r) of
           None \<Rightarrow> Inl TypeError
         | Some q \<Rightarrow>
             Inr (w\<lparr>trace := trace w @ [Emit this (CacheNeedsFlushing (cacheName r))],
                    needsFlushing := (needsFlushing w)(cacheName r \<mapsto> q @ [r])\<rparr>)))"

section \<open>forget, forgetAll, cacheFor\<close>

definition typeCheck :: "jsval \<Rightarrow> bool" where
  "typeCheck v = (typeof v \<noteq> ''number'' \<and> typeof v \<noteq> ''string'')"

text \<open>
  \<^verbatim>\<open>forget(cacheName, path)\<close>; called with one argument, that argument is the path.
  \<^verbatim>\<open>order.indexOf(path)\<close> compares with strict equality, so only a string is found.
\<close>

definition forget :: "jsval list \<Rightarrow> world \<Rightarrow> error + world" where
  "forget args w =
     (let cacheNameArg = (if length args = 1 then Str defaultName else arg args 0);
          pathArg = (if length args = 1 then arg args 0 else arg args 1)
      in
      if typeCheck cacheNameArg then Inl PluginError
      else
        let name = to_key cacheNameArg in
        (case caches w name of
           None \<Rightarrow> Inr (w\<lparr>trace := trace w @ [Log (CacheNotFound name)]\<rparr>)
         | Some a \<Rightarrow>
             let c = heap w a; key = to_key pathArg in
             if files c key = None
             then Inr (w\<lparr>trace := trace w @ [Log (FileNotFound key name)]\<rparr>)
             else
               let pos = (case pathArg of Str s \<Rightarrow> indexOf (order c) s | _ \<Rightarrow> - 1) in
               Inr (w\<lparr>heap := (heap w)(a := c\<lparr>order := splice_delete1 pos (order c),
                                                files := (files c)(key := None)\<rparr>)\<rparr>)))"

definition forgetAll :: "jsval list \<Rightarrow> world \<Rightarrow> error + world" where
  "forgetAll args w =
     (let cacheNameArg = (if length args = 0 then Str defaultName else arg args 0) in
      if typeCheck cacheNameArg then Inl PluginError
      else
        let name = to_key cacheNameArg in
        (case caches w name of
           None \<Rightarrow> Inr (w\<lparr>trace := trace w @ [Log (CacheNotFound name)]\<rparr>)
         | Some a \<Rightarrow> Inr (w\<lparr>caches := (caches w)(name := None)\<rparr>)))"

text \<open>\<^verbatim>\<open>cacheFor\<close> returns the reference \<^verbatim>\<open>caches[cacheName]\<close>, or undefined.\<close>

definition cacheFor :: "jsval list \<Rightarrow> world \<Rightarrow> error + addr option" where
  "cacheFor args w =
     (let cacheNameArg = (if length args = 0 then Str defaultName else arg args 0) in
      if typeCheck cacheNameArg then Inl PluginError
      else Inr (caches w (to_key cacheNameArg)))"

section \<open>Runs under the host pipeline\<close>

text \<open>
  The host (through2) calls a stage's per-item handler only before that stage's
  end-of-input handler, and the end-of-input handler once. A process is a closure with
  the state of its two streams; an exception thrown by a handler ends the execution.
\<close>

record proc =
  closure :: run
  cachedOpen :: bool
  rememberOpen :: bool

record sys =
  globals :: world
  procs :: "proc list"

datatype op =
    Create jsval "options option"
  | Caching nat vinyl
  | EndCaching nat
  | Remember nat vinyl
  | EndRemember nat
  | Forget "jsval list"
  | ForgetAll "jsval list"

definition init_sys :: sys where
  "init_sys = \<lparr>globals = init_world, procs = []\<rparr>"

definition with_world :: "sys \<Rightarrow> error + world \<Rightarrow> error + sys" where
  "with_world s res = (case res of Inl err \<Rightarrow> Inl err | Inr w \<Rightarrow> Inr (s\<lparr>globals := w\<rparr>))"

fun step :: "(string \<Rightarrow> string) \<Rightarrow> op \<Rightarrow> sys \<Rightarrow> error + sys" where
  "step md5 (Create v os) s =
     (case gulpCachedRemember v os (globals s) of
        Inl err \<Rightarrow> Inl err
      | Inr (r, w) \<Rightarrow>
          Inr \<lparr>globals = w,
               procs = procs s @ [\<lparr>closure = r, cachedOpen = True, rememberOpen = True\<rparr>]\<rparr>)"
| "step md5 (Caching i f) s =
     (if i < length (procs s) then
        (if cachedOpen (procs s ! i)
         then with_world s (caching md5 (closure (procs s ! i)) f (globals s))
         else Inl WriteAfterEnd)
      else Inl NoSuchRun)"
| "step md5 (EndCaching i) s =
     (if i < length (procs s) then
        (if cachedOpen (procs s ! i)
         then (case endCaching (closure (procs s ! i)) (globals s) of
                 (r, w) \<Rightarrow>
                   Inr \<lparr>globals = w,
                        procs = (procs s)[i := (procs s ! i)\<lparr>closure := r, cachedOpen := False\<rparr>]\<rparr>)
         else Inl WriteAfterEnd)
      else Inl NoSuchRun)"
| "step md5 (Remember i f) s =
     (if i < length (procs s) then
        (if rememberOpen (procs s ! i)
         then with_world s (remember (closure (procs s ! i)) f (globals s))
         else Inl WriteAfterEnd)
      else Inl NoSuchRun)"
| "step md5 (EndRemember i) s =
     (if i < length (procs s) then
        (if rememberOpen (procs s ! i)
         then (case endRemember (closure (procs s ! i)) (globals s) of
                 Inl err \<Rightarrow> Inl err
               | Inr w \<Rightarrow>
                   Inr \<lparr>globals = w,
                        procs = (procs s)[i := (procs s ! i)\<lparr>rememberOpen := False\<rparr>]\<rparr>)
         else Inl WriteAfterEnd)
      else Inl NoSuchRun)"
| "step md5 (Forget args) s = with_world s (forget args (globals s))"
| "step md5 (ForgetAll args) s = with_world s (forgetAll args (globals s))"

fun exec :: "(string \<Rightarrow> string) \<Rightarrow> op list \<Rightarrow> sys \<Rightarrow> error + sys" where
  "exec md5 [] s = Inr s"
| "exec md5 (x # xs) s =
     (case step md5 x s of Inl err \<Rightarrow> Inl err | Inr s' \<Rightarrow> exec md5 xs s')"

text \<open>The values a stream has been given by \<^verbatim>\<open>this.push\<close>, in order.\<close>

fun pushed :: "stream \<Rightarrow> event list \<Rightarrow> vinyl option list" where
  "pushed st [] = []"
| "pushed st (Push st' x # evs) = (if st' = st then x # pushed st evs else pushed st evs)"
| "pushed st (_ # evs) = pushed st evs"

text \<open>The notifications a stream has emitted, in order.\<close>

fun emitted :: "stream \<Rightarrow> event list \<Rightarrow> notification list" where
  "emitted st [] = []"
| "emitted st (Emit st' x # evs) = (if st' = st then x # emitted st evs else emitted st evs)"
| "emitted st (_ # evs) = emitted st evs"

section \<open>Observations and derived notions\<close>

text \<open>The value \<^verbatim>\<open>cacheFiles[p].data\<close> when the entry exists.\<close>

definition snapshot :: "cache \<Rightarrow> string \<Rightarrow> vinyl option" where
  "snapshot c p = (case files c p of None \<Rightarrow> None | Some e \<Rightarrow> data e)"

text \<open>Every element of \<^verbatim>\<open>cacheOrder\<close> has an entry, so that \<^verbatim>\<open>flush\<close> does not throw.\<close>

definition flushable :: "(addr \<Rightarrow> cache) \<Rightarrow> run \<Rightarrow> bool" where
  "flushable h r = list_all (\<lambda>p. files (h (cache r)) p \<noteq> None) (order (h (cache r)))"

text \<open>The events of one call of \<^verbatim>\<open>flush\<close> for the closure \<open>r\<close> on the store \<open>h\<close>.\<close>

definition flush_events :: "(addr \<Rightarrow> cache) \<Rightarrow> run \<Rightarrow> event list" where
  "flush_events h r =
     map (\<lambda>p. Push (rid r, RememberStage) (snapshot (h (cache r)) p)) (order (h (cache r))) @
     [Emit (rid r, RememberStage) (CacheFlush (cacheName r) (isMaster r)),
      Callback (rid r, RememberStage)]"

text \<open>The \<^verbatim>\<open>cache-processed\<close> notifications of a trace.\<close>

fun is_processed :: "event \<Rightarrow> bool" where
  "is_processed (Emit st (CacheProcessed n m)) = True"
| "is_processed _ = False"

section \<open>Example inputs\<close>

text \<open>The files of the end-to-end scenario, and a changed \<open>b.js\<close>.\<close>

definition fileA :: vinyl where
  "fileA = \<lparr>path = ''a.js'', contents = Buffer ''X'', file_checksum = None\<rparr>"

definition fileB :: vinyl where
  "fileB = \<lparr>path = ''b.js'', contents = Buffer ''Y'', file_checksum = None\<rparr>"

definition fileC :: vinyl where
  "fileC = \<lparr>path = ''c.js'', contents = Buffer ''W'', file_checksum = None\<rparr>"

text \<open>
  What an execution from the initial state leaves behind: the values pushed to a stream,
  the notifications of a stream, the \<^verbatim>\<open>order\<close> of a cache object, one of its entries, and
  for each run its cache name, its \<^verbatim>\<open>isMaster\<close> flag and whether its Remember Stage is
  still open.
\<close>

definition outputs_of :: "(string \<Rightarrow> string) \<Rightarrow> op list \<Rightarrow> stream \<Rightarrow> vinyl option list option" where
  "outputs_of md5 ops st =
     (case exec md5 ops init_sys of Inl err \<Rightarrow> None | Inr s \<Rightarrow> Some (pushed st (trace (globals s))))"

definition notifications_of :: "(string \<Rightarrow> string) \<Rightarrow> op list \<Rightarrow> stream \<Rightarrow> notification list option" where
  "notifications_of md5 ops st =
     (case exec md5 ops init_sys of Inl err \<Rightarrow> None | Inr s \<Rightarrow> Some (emitted st (trace (globals s))))"

definition order_of :: "(string \<Rightarrow> string) \<Rightarrow> op list \<Rightarrow> addr \<Rightarrow> string list option" where
  "order_of md5 ops a =
     (case exec md5 ops init_sys of Inl err \<Rightarrow> None | Inr s \<Rightarrow> Some (order (heap (globals s) a)))"

definition entry_of :: "(string \<Rightarrow> string) \<Rightarrow> op list \<Rightarrow> addr \<Rightarrow> string \<Rightarrow> entry option option" where
  "entry_of md5 ops a k =
     (case exec md5 ops init_sys of Inl err \<Rightarrow> None | Inr s \<Rightarrow> Some (files (heap (globals s) a) k))"

definition role :: "proc \<Rightarrow> string \<times> bool \<times> bool" where
  "role p = (cacheName (closure p), isMaster (closure p), rememberOpen p)"

definition roles_of :: "(string \<Rightarrow> string) \<Rightarrow> op list \<Rightarrow> (string \<times> bool \<times> bool) list option" where
  "roles_of md5 ops =
     (case exec md5 ops init_sys of Inl err \<Rightarrow> None | Inr s \<Rightarrow> Some (map role (procs s)))"

text \<open>The closures of a master and of two observers attached to the cache \<open>build\<close>.\<close>

definition master0 :: run where
  "master0 = \<lparr>rid = 0, cacheName = ''build'', cache = 0, isMaster = True, isNewCache = True, opts = None\<rparr>"

definition observer1 :: run where
  "observer1 = \<lparr>rid = 1, cacheName = ''build'', cache = 0, isMaster = False, isNewCache = False, opts = None\<rparr>"

text \<open>
  The module state after \<open>master0\<close> and \<open>observer1\<close> have attached to the cache
  \<open>build\<close> and the Cache Stage of \<open>master0\<close> has seen \<open>fileA\<close>.
\<close>

definition world1 :: world where
  "world1 = \<lparr>heap = (\<lambda>a. emptyCache)(0 := \<lparr>order = [''a.js''],
        files = [''a.js'' \<mapsto> \<lparr>checksum = Some ''X'', data = None\<rparr>], ended = False\<rparr>),
      nextAddr = 1, caches = [''build'' \<mapsto> 0], needsFlushing = [''build'' \<mapsto> []],
      nextRid = 2, trace = []\<rparr>"

definition fileB2 :: vinyl where
  "fileB2 = \<lparr>path = ''b.js'', contents = Buffer ''Z'', file_checksum = None\<rparr>"

text \<open>A file whose buffer is empty.\<close>

definition fileE :: vinyl where
  "fileE = \<lparr>path = ''e.js'', contents = Buffer '''', file_checksum = None\<rparr>"



section \<open>Invariants of the registry and of mastership\<close>



text \<open>
  The registry refers to allocated cache objects, and no cache object is registered under
  two names.
\<close>

definition registry_ok :: "world \<Rightarrow> bool" where
  "registry_ok w =
     (\<forall>n a. caches w n = Some a \<longrightarrow>
        a < nextAddr w \<and> (\<forall>n'. caches w n' = Some a \<longrightarrow> n' = n))"
















text \<open>
  A module state with the default cache and a cache named \<open>0\<close>, both holding \<open>a.js\<close>.
\<close>

definition world3 :: world where
  "world3 = \<lparr>heap = (\<lambda>a. emptyCache)
        (0 := \<lparr>order = [''a.js''],
               files = [''a.js'' \<mapsto> \<lparr>checksum = Some ''X'', data = Some fileA\<rparr>], ended = True\<rparr>,
         1 := \<lparr>order = [''a.js''],
               files = [''a.js'' \<mapsto> \<lparr>checksum = Some ''X'', data = Some fileA\<rparr>], ended = True\<rparr>),
      nextAddr = 2, caches = [''_default'' \<mapsto> 0, ''0'' \<mapsto> 1],
      needsFlushing = [''_default'' \<mapsto> [], ''0'' \<mapsto> []],
      nextRid = 2, trace = []\<rparr>"


section \<open>Evaluation and the streams of a trace\<close>

lemmas ev = init_sys_def init_world_def emptyCache_def gulpCachedRemember_def caching_def
  endCaching_def remember_def flush_def endRemember_def forget_def forgetAll_def
  with_world_def getChecksum_def truthy_str_def optsUseHash_def defaultName_def
  splice_insert_def splice_start_def splice_delete1_def typeCheck_def arg_def Let_def

lemma pushed_append: "pushed st (xs @ ys) = pushed st xs @ pushed st ys"
  by (induction st xs rule: pushed.induct) auto

lemma emitted_append: "emitted st (xs @ ys) = emitted st xs @ emitted st ys"
  by (induction st xs rule: emitted.induct) auto

lemma flush_pushes_eq:
  "list_all (\<lambda>p. files c p \<noteq> None) xs \<Longrightarrow>
   flush_pushes this c xs = Inr (map (\<lambda>p. Push this (snapshot c p)) xs)"
  by (induction xs) (auto simp: snapshot_def)

lemma flush_pushes_Inr:
  "flush_pushes this c xs = Inr evs \<Longrightarrow> list_all (\<lambda>p. files c p \<noteq> None) xs"
  by (induction xs arbitrary: evs) (auto split: option.splits sum.splits)

lemma flush_eq:
  "flushable (heap w) r \<Longrightarrow> flush r w = Inr (w\<lparr>trace := trace w @ flush_events (heap w) r\<rparr>)"
  by (simp add: flush_def flushable_def flush_events_def flush_pushes_eq Let_def)

lemma flush_Inr: "flush r w = Inr w' \<Longrightarrow> flushable (heap w) r"
  by (auto simp: flush_def flushable_def Let_def split: sum.splits dest: flush_pushes_Inr)

lemma flush_all_eq:
  "list_all (flushable (heap w)) q \<Longrightarrow>
   flush_all q w = Inr (w\<lparr>trace := trace w @ concat (map (flush_events (heap w)) q)\<rparr>)"
proof (induction q arbitrary: w)
  case Nil
  then show ?case by simp
next
  case (Cons fn fns)
  let ?w1 = "w\<lparr>trace := trace w @ flush_events (heap w) fn\<rparr>"
  from Cons.prems have "flush fn w = Inr ?w1" by (simp add: flush_eq)
  moreover from Cons.prems have "list_all (flushable (heap ?w1)) fns" by simp
  then have "flush_all fns ?w1 =
    Inr (?w1\<lparr>trace := trace ?w1 @ concat (map (flush_events (heap ?w1)) fns)\<rparr>)"
    by (rule Cons.IH)
  ultimately show ?case by simp
qed

lemma flush_all_Inr: "flush_all q w = Inr w' \<Longrightarrow> list_all (flushable (heap w)) q"
proof (induction q arbitrary: w)
  case Nil
  then show ?case by simp
next
  case (Cons fn fns)
  from Cons.prems obtain w1 where f: "flush fn w = Inr w1" and r: "flush_all fns w1 = Inr w'"
    by (auto split: sum.splits)
  from f have fl: "flushable (heap w) fn" by (rule flush_Inr)
  with f have "heap w1 = heap w" by (auto simp: flush_eq)
  with Cons.IH[OF r] fl show ?case by simp
qed

lemma flush_events_no_processed: "filter is_processed (flush_events h r) = []"
  by (simp add: flush_events_def filter_empty_conv)

lemma flush_events_all_no_processed: "filter is_processed (concat (map (flush_events h) q)) = []"
  by (induction q) (simp_all add: flush_events_no_processed)

lemma flushable_ended [simp]:
  "flushable (h(a := (h a)\<lparr>ended := b\<rparr>)) = flushable h"
  by (rule ext) (simp add: flushable_def)

lemma flush_events_ended [simp]:
  "flush_events (h(a := (h a)\<lparr>ended := b\<rparr>)) = flush_events h"
  by (rule ext) (simp add: flush_events_def snapshot_def)

text \<open>What a successful \<^verbatim>\<open>endRemember\<close> does, in closed form.\<close>

lemma endRemember_flush_branch:
  assumes "isMaster r \<or> ended (heap w (cache r))"
    and "endRemember r w = Inr w'"
  shows "\<exists>q. needsFlushing w (cacheName r) = Some q \<and> flushable (heap w) r \<and>
           list_all (flushable (heap w)) q \<and>
           w' = w\<lparr>heap := (heap w)(cache r := (heap w (cache r))\<lparr>ended := True\<rparr>),
                  needsFlushing := (needsFlushing w)(cacheName r \<mapsto> []),
                  trace := trace w @
                    [Emit (rid r, RememberStage) (CacheProcessed (cacheName r) (isMaster r))] @
                    flush_events (heap w) r @ concat (map (flush_events (heap w)) q)\<rparr>"
proof -
  let ?w0 = "w\<lparr>trace := trace w @
               [Emit (rid r, RememberStage) (CacheProcessed (cacheName r) (isMaster r))]\<rparr>"
  from assms obtain w1 where f: "flush r ?w0 = Inr w1"
    by (auto simp: endRemember_def Let_def split: sum.splits)
  then have fl: "flushable (heap w) r" using flush_Inr by fastforce
  with f have w1: "w1 = ?w0\<lparr>trace := trace ?w0 @ flush_events (heap w) r\<rparr>"
    using flush_eq[of ?w0 r] by simp
  let ?w2 = "w1\<lparr>heap := (heap w1)(cache r := (heap w1 (cache r))\<lparr>ended := True\<rparr>)\<rparr>"
  from assms f obtain q where q: "needsFlushing w (cacheName r) = Some q"
    by (auto simp: endRemember_def Let_def w1 split: sum.splits option.splits)
  show ?thesis
  proof (cases "q = []")
    case True
    with assms f q w1 fl show ?thesis
      by (auto simp: endRemember_def Let_def fun_upd_idem)
  next
    case False
    with assms f q w1 obtain w3 where a: "flush_all q ?w2 = Inr w3"
      and w': "w' = w3\<lparr>needsFlushing := (needsFlushing w3)(cacheName r \<mapsto> [])\<rparr>"
      by (auto simp: endRemember_def Let_def split: sum.splits)
    from a have ql: "list_all (flushable (heap ?w2)) q" by (rule flush_all_Inr)
    then have ql': "list_all (flushable (heap w)) q" by (simp add: w1)
    from a ql have "w3 = ?w2\<lparr>trace := trace ?w2 @ concat (map (flush_events (heap ?w2)) q)\<rparr>"
      using flush_all_eq[of ?w2 q] by simp
    with w' w1 q fl ql' show ?thesis by (simp add: w1)
  qed
qed


lemma pushed_map_Push: "pushed st (map (\<lambda>p. Push st (g p)) xs) = map g xs"
  by (induction xs) simp_all


lemma string_of_int_0: "string_of_int 0 = ''0''"
  by (simp add: string_of_int_def string_of_nat.simps digit_char_def)

text \<open>Where the Cache Stage of a master puts an id that has no entry yet.\<close>

lemma caching_unseen_position:
  assumes "isMaster r" and "files (heap w (cache r)) (path f) = None"
  shows "\<exists>w'. caching md5 r f w = Inr w' \<and>
           order (heap w' (cache r)) =
             (if isNewCache r then order (heap w (cache r)) @ [path f]
              else path f # order (heap w (cache r)))"
  using assms
  by (simp add: caching_def Let_def splice_insert_def splice_start_def)

text \<open>
  What the Cache Stage of a master does with an item: the item is pushed exactly when the id
  had no entry, or the checksum is falsy (undefined or the empty string), or it differs
  from the stored one; each push stores the checksum and is followed by one
  \<^verbatim>\<open>file-modified\<close> notification unless \<^verbatim>\<open>isNewCache\<close> holds.
\<close>

lemma caching_master_forwards:
  assumes "isMaster r"
  shows "\<exists>w'. caching md5 r f w = Inr w' \<and>
    (let stored = files (heap w (cache r)) (path f);
         chk = getChecksum md5 f (optsUseHash (opts r));
         fwd = (stored = None \<or> \<not> truthy_str chk \<or> Some chk \<noteq> map_option checksum stored)
     in trace w' = trace w @
          (if fwd then [Push (rid r, CachedStage) (Some f)] @
             (if \<not> isNewCache r
              then [Emit (rid r, CachedStage) (FileModified (cacheName r) (path f))] else [])
           else []) @ [Callback (rid r, CachedStage)]
        \<and> (fwd \<longrightarrow> map_option checksum (files (heap w' (cache r)) (path f)) = Some chk))"
  using assms
  by (cases "files (heap w (cache r)) (path f)")
    (auto simp: caching_def Let_def truthy_str_def split: option.splits)

section \<open>Effects of the operations on the registry and on the \<open>ended\<close> flags\<close>

















section \<open>The invariant is kept by every step\<close>












section \<open>Every run has a queue\<close>













section \<open>Runs and the registry when nothing is forgotten wholesale\<close>







section \<open>No stream is flushed twice\<close>





















section \<open>Waiting runs are flushed by the next flushing run of their cache name\<close>















section \<open>The Cache Stage of an observer (claim C1)\<close>

text \<open>
  Claim C1 says that the Cache Stage of an observer run passes every item through to its
  output and does not mutate the registry. In the source an observer's \<^verbatim>\<open>caching\<close>
  returns \<^verbatim>\<open>callback()\<close> at once, without \<^verbatim>\<open>this.push(file)\<close>: the registry is indeed
  untouched, but nothing reaches the output. Below, the second run attached to the cache
  \<open>build\<close> is an observer, its Cache Stage is given \<open>fileA\<close>, and its output is empty.
\<close>

theorem observer_cache_stage_counterexample:
  "roles_of id [Create (Str ''build'') None, Create (Str ''build'') None, Caching 1 fileA]
     = Some [(''build'', True, True), (''build'', False, True)]
   \<and> outputs_of id [Create (Str ''build'') None, Create (Str ''build'') None, Caching 1 fileA]
       (1, CachedStage) = Some []
   \<and> outputs_of id [Create (Str ''build'') None, Create (Str ''build'') None, Caching 1 fileA]
       (1, CachedStage) \<noteq> Some [Some fileA]"
  by (simp add: outputs_of_def roles_of_def role_def ev fileA_def)

text \<open>
  C1 as amended: for every observer run and every item supplied to its Cache Stage, the
  stage completes the item (calls its callback) without pushing anything to its output
  and without emitting a notification, and it leaves the store of cache objects, the
  registry \<^verbatim>\<open>caches\<close> and the pending flush queues unchanged.
\<close>

theorem caching_observer_drops:
  "\<not> isMaster r \<Longrightarrow>
   \<exists>w'. caching md5 r f w = Inr w' \<and>
        trace w' = trace w @ [Callback (rid r, CachedStage)] \<and>
        pushed (rid r, CachedStage) (trace w') = pushed (rid r, CachedStage) (trace w) \<and>
        heap w' = heap w \<and> caches w' = caches w \<and> needsFlushing w' = needsFlushing w"
  by (simp add: caching_def pushed_append)

theorem caching_observer_drops_witness:
  "\<not> isMaster observer1 \<and>
   (\<exists>w'. caching id observer1 fileA world1 = Inr w' \<and>
        trace w' = trace world1 @ [Callback (rid observer1, CachedStage)] \<and>
        pushed (rid observer1, CachedStage) (trace w') = pushed (rid observer1, CachedStage) (trace world1) \<and>
        heap w' = heap world1 \<and> caches w' = caches world1 \<and> needsFlushing w' = needsFlushing world1)"
  using caching_observer_drops [of observer1 id fileA world1] by (simp add: observer1_def)

section \<open>Deferred flushes (claim C2)\<close>




section \<open>What a flush emits (claim C3)\<close>

text \<open>
  Claim C3 says that a flush emits the snapshots of the entries of \<^verbatim>\<open>order\<close> that have
  one, and skips the entries that have none. The source calls
  \<^verbatim>\<open>this.push(cacheFiles[filePath].data)\<close> for every element of \<^verbatim>\<open>cacheOrder\<close>, with
  no test of the value. Below, \<open>a.js\<close> is dropped between the two stages, so its entry
  has no snapshot, and the flush pushes \<^verbatim>\<open>undefined\<close> for it before \<open>fileB\<close>.
\<close>

theorem flush_skips_nothing_counterexample:
  "order_of id [Create (Str ''build'') None, Caching 0 fileA, Caching 0 fileB, EndCaching 0,
                Remember 0 fileB, EndRemember 0] 0 = Some [''a.js'', ''b.js'']
   \<and> entry_of id [Create (Str ''build'') None, Caching 0 fileA, Caching 0 fileB, EndCaching 0,
                Remember 0 fileB, EndRemember 0] 0 ''a.js''
       = Some (Some \<lparr>checksum = Some ''X'', data = None\<rparr>)
   \<and> outputs_of id [Create (Str ''build'') None, Caching 0 fileA, Caching 0 fileB, EndCaching 0,
                Remember 0 fileB, EndRemember 0] (0, RememberStage) = Some [None, Some fileB]
   \<and> outputs_of id [Create (Str ''build'') None, Caching 0 fileA, Caching 0 fileB, EndCaching 0,
                Remember 0 fileB, EndRemember 0] (0, RememberStage) \<noteq> Some [Some fileB]"
  by (simp add: order_of_def entry_of_def outputs_of_def ev fileA_def fileB_def)

text \<open>
  C3 as amended: for every cache state at flush time in which each id of \<^verbatim>\<open>order\<close> has
  an entry, the flush returns and makes exactly one push per id of \<^verbatim>\<open>order\<close>, in
  \<^verbatim>\<open>order\<close> sequence, of that entry's stored snapshot; for an entry without a snapshot
  the value pushed is \<^verbatim>\<open>undefined\<close>. No entry is skipped, omitted or reordered, and the
  cache objects are unchanged.
\<close>

theorem flush_pushes_order:
  "flushable (heap w) r \<Longrightarrow>
   \<exists>w'. flush r w = Inr w' \<and>
        trace w' = trace w @
          map (\<lambda>p. Push (rid r, RememberStage) (snapshot (heap w (cache r)) p))
            (order (heap w (cache r))) @
          [Emit (rid r, RememberStage) (CacheFlush (cacheName r) (isMaster r)),
           Callback (rid r, RememberStage)] \<and>
        pushed (rid r, RememberStage) (trace w') =
          pushed (rid r, RememberStage) (trace w) @
          map (snapshot (heap w (cache r))) (order (heap w (cache r))) \<and>
        heap w' = heap w"
  by (simp add: flush_eq flush_events_def pushed_append pushed_map_Push)

theorem flush_pushes_order_witness:
  "flushable (heap world1) master0 \<and>
   (\<exists>w'. flush master0 world1 = Inr w' \<and>
        trace w' = [Push (0, RememberStage) None, Emit (0, RememberStage) (CacheFlush ''build'' True),
                    Callback (0, RememberStage)] \<and>
        pushed (0, RememberStage) (trace w') = [None] \<and> heap w' = heap world1)"
  using flush_pushes_order [of world1 master0]
  by (simp add: flushable_def snapshot_def master0_def world1_def)

section \<open>Forwarding by the master's Cache Stage (claim C4)\<close>

text \<open>
  Claim C4 says that a master's Cache Stage forwards an item if and only if its id is new,
  no checksum is computable, or the checksum differs from the stored one, and that
  unchanged items are dropped. The comments of the source say the same (line 73: files
  not cached, streams and changed ones are pushed; line 78: files modified since the last
  build). The test \<^verbatim>\<open>!checksum\<close> is also true of the empty string, the checksum of an
  empty buffer. Below, a second master run is given the unchanged empty file \<open>fileE\<close>,
  whose stored checksum equals the computed one, and the file is forwarded with a
  \<^verbatim>\<open>file-modified\<close> notification.
\<close>

theorem unchanged_empty_buffer_forwarded:
  "entry_of id
     [Create (Str ''build'') None, Caching 0 fileE, EndCaching 0, Remember 0 fileE,
      EndRemember 0, Create (Str ''build'') None] 0 ''e.js''
     = Some (Some \<lparr>checksum = Some '''', data = Some fileE\<rparr>)
   \<and> getChecksum id fileE False = Some ''''
   \<and> outputs_of id
     [Create (Str ''build'') None, Caching 0 fileE, EndCaching 0, Remember 0 fileE,
      EndRemember 0, Create (Str ''build'') None, Caching 1 fileE] (1, CachedStage)
     = Some [Some fileE]
   \<and> notifications_of id
     [Create (Str ''build'') None, Caching 0 fileE, EndCaching 0, Remember 0 fileE,
      EndRemember 0, Create (Str ''build'') None, Caching 1 fileE] (1, CachedStage)
     = Some [FileModified ''build'' ''e.js'']"
  by (simp add: entry_of_def outputs_of_def notifications_of_def ev fileE_def)

section \<open>Mastership (claim C5)\<close>




section \<open>Snapshots are written by the master only (claim C6)\<close>

text \<open>
  Claim C6 says that every Remember Stage run, master or observer, stores each item it
  processes as the snapshot of the item's entry. The source guards the assignment with
  \<^verbatim>\<open>if (isMaster)\<close>. Below, the observer's Remember Stage is given \<open>fileA\<close> and the
  entry of \<open>a.js\<close> still has no snapshot.
\<close>

theorem observer_remember_counterexample:
  "roles_of id [Create (Str ''build'') None, Caching 0 fileA, Create (Str ''build'') None,
      Remember 1 fileA] = Some [(''build'', True, True), (''build'', False, True)]
   \<and> entry_of id [Create (Str ''build'') None, Caching 0 fileA, Create (Str ''build'') None,
      Remember 1 fileA] 0 ''a.js'' = Some (Some \<lparr>checksum = Some ''X'', data = None\<rparr>)"
  by (simp add: entry_of_def roles_of_def role_def ev fileA_def)

text \<open>
  C6 as amended: a master's Remember Stage stores each item it processes as the snapshot
  of the item's entry, when the entry exists; an observer's Remember Stage stores
  nothing and leaves every cache object as it was.
\<close>

theorem remember_stores_for_master_only:
  "(isMaster r \<and> files (heap w (cache r)) (path f) = Some e \<longrightarrow>
      (\<exists>w'. remember r f w = Inr w' \<and>
            files (heap w' (cache r)) (path f) = Some (e\<lparr>data := Some f\<rparr>)))
   \<and> (\<not> isMaster r \<longrightarrow> (\<exists>w'. remember r f w = Inr w' \<and> heap w' = heap w))"
  by (simp add: remember_def Let_def)

theorem remember_stores_for_master_only_witness:
  "(isMaster master0 \<and>
      files (heap world1 (cache master0)) (path fileA) = Some \<lparr>checksum = Some ''X'', data = None\<rparr>)
   \<and> (\<exists>w'. remember master0 fileA world1 = Inr w' \<and>
            files (heap w' (cache master0)) (path fileA) = Some \<lparr>checksum = Some ''X'', data = Some fileA\<rparr>)
   \<and> \<not> isMaster observer1
   \<and> (\<exists>w'. remember observer1 fileA world1 = Inr w' \<and> heap w' = heap world1)"
  using remember_stores_for_master_only [of master0 world1 fileA "\<lparr>checksum = Some ''X'', data = None\<rparr>"]
    remember_stores_for_master_only [of observer1 world1 fileA]
  by (simp add: master0_def observer1_def world1_def fileA_def)

section \<open>The cache-processed notification (claim C7)\<close>

text \<open>
  Claim C7 says that \<^verbatim>\<open>cache-processed\<close> is emitted at the end of input of every
  Remember Stage, whichever branch is taken. The source emits it inside the branch
  \<^verbatim>\<open>if (isMaster || cache.ended)\<close> only; the other branch emits
  \<^verbatim>\<open>cache-needsFlushing\<close>. Below, an observer reaches end-of-input while the master is
  still running, and the only notification of its Remember Stage is
  \<^verbatim>\<open>cache-needsFlushing\<close>.
\<close>

theorem observer_no_processed_counterexample:
  "roles_of id [Create (Str ''build'') None, Create (Str ''build'') None, EndRemember 1]
     = Some [(''build'', True, True), (''build'', False, False)]
   \<and> notifications_of id [Create (Str ''build'') None, Create (Str ''build'') None, EndRemember 1]
       (1, RememberStage) = Some [CacheNeedsFlushing ''build'']"
  by (simp add: notifications_of_def roles_of_def role_def ev)

text \<open>
  C7 as amended: when the Remember Stage of a run reaches end-of-input and returns,
  exactly one \<^verbatim>\<open>cache-processed\<close> notification, carrying the cache name and the run's
  master flag, is emitted if the run is master or the cache is quiescent, and none is
  emitted otherwise (not by the deferred flushes either); in that other case the only
  event is a \<^verbatim>\<open>cache-needsFlushing\<close> notification carrying the cache name.
\<close>

theorem endRemember_processed_iff:
  assumes "endRemember r w = Inr w'"
  shows "filter is_processed (trace w') =
           filter is_processed (trace w) @
           (if isMaster r \<or> ended (heap w (cache r))
            then [Emit (rid r, RememberStage) (CacheProcessed (cacheName r) (isMaster r))]
            else [])
         \<and> (\<not> (isMaster r \<or> ended (heap w (cache r))) \<longrightarrow>
              trace w' = trace w @ [Emit (rid r, RememberStage) (CacheNeedsFlushing (cacheName r))])"
proof (cases "isMaster r \<or> ended (heap w (cache r))")
  case True
  from endRemember_flush_branch[OF True assms] obtain q where
    "w' = w\<lparr>heap := (heap w)(cache r := (heap w (cache r))\<lparr>ended := True\<rparr>),
            needsFlushing := (needsFlushing w)(cacheName r \<mapsto> []),
            trace := trace w @
              [Emit (rid r, RememberStage) (CacheProcessed (cacheName r) (isMaster r))] @
              flush_events (heap w) r @ concat (map (flush_events (heap w)) q)\<rparr>"
    by blast
  with True show ?thesis
    by (simp add: flush_events_no_processed flush_events_all_no_processed)
next
  case False
  with assms show ?thesis
    by (auto simp: endRemember_def Let_def split: option.splits)
qed

theorem endRemember_processed_iff_witness:
  "endRemember observer1 world1 =
     Inr (world1\<lparr>trace := [Emit (1, RememberStage) (CacheNeedsFlushing ''build'')],
                needsFlushing := [''build'' \<mapsto> [observer1]]\<rparr>)
   \<and> filter is_processed [Emit (1, RememberStage) (CacheNeedsFlushing ''build'')] = []
   \<and> endRemember master0 world1 =
     Inr (world1\<lparr>heap := (heap world1)(0 := (heap world1 0)\<lparr>ended := True\<rparr>),
          trace := [Emit (0, RememberStage) (CacheProcessed ''build'' True),
                    Push (0, RememberStage) None,
                    Emit (0, RememberStage) (CacheFlush ''build'' True),
                    Callback (0, RememberStage)]\<rparr>)
   \<and> filter is_processed [Emit (0, RememberStage) (CacheProcessed ''build'' True),
                    Push (0, RememberStage) None,
                    Emit (0, RememberStage) (CacheFlush ''build'' True),
                    Callback (0, RememberStage)] = [Emit (0, RememberStage) (CacheProcessed ''build'' True)]"
proof -
  have a: "endRemember observer1 world1 =
     Inr (world1\<lparr>trace := [Emit (1, RememberStage) (CacheNeedsFlushing ''build'')],
                needsFlushing := [''build'' \<mapsto> [observer1]]\<rparr>)"
    by (simp add: ev observer1_def world1_def)
  have b: "endRemember master0 world1 =
     Inr (world1\<lparr>heap := (heap world1)(0 := (heap world1 0)\<lparr>ended := True\<rparr>),
          trace := [Emit (0, RememberStage) (CacheProcessed ''build'' True),
                    Push (0, RememberStage) None,
                    Emit (0, RememberStage) (CacheFlush ''build'' True),
                    Callback (0, RememberStage)]\<rparr>)"
    by (simp add: ev master0_def world1_def)
  from endRemember_processed_iff[OF a] endRemember_processed_iff[OF b] a b
  show ?thesis by (simp add: observer1_def master0_def world1_def)
qed

section \<open>The position of a new id (claim C8)\<close>

text \<open>
  Claim C8 says that a master run on a pre-existing cache inserts an unseen id right after
  the previous item of the run, and at position 0 when there is none. The source computes
  \<^verbatim>\<open>cacheOrder.indexOf(previousFile.path) + 1\<close>, but \<^verbatim>\<open>previousFile\<close> is declared inside
  \<^verbatim>\<open>caching\<close> and is undefined at every call, so the position is always 0. Below, the
  second run sees \<open>a.js\<close>, \<open>b.js\<close> and then the new \<open>c.js\<close>, which ends up first instead
  of after \<open>b.js\<close>.
\<close>

theorem new_id_inserted_at_front:
  "order_of id
     [Create (Str ''build'') None, Caching 0 fileA, Caching 0 fileB, EndCaching 0,
      Remember 0 fileA, Remember 0 fileB, EndRemember 0,
      Create (Str ''build'') None, Caching 1 fileA, Caching 1 fileB2, Caching 1 fileC] 0
   = Some [''c.js'', ''a.js'', ''b.js'']"
  by (simp add: order_of_def ev fileA_def fileB_def fileB2_def fileC_def)

section \<open>The master's Remember Stage needs the entry (claim C9)\<close>

text \<open>
  Claim C9: for a master run, the per-item handler of the Remember Stage dereferences the
  entry of \<^verbatim>\<open>file.path\<close> unconditionally. When the cache has no entry for the item's
  id, the handler fails (a TypeError) instead of creating the entry or skipping the item;
  it returns normally exactly when the entry exists.
\<close>

theorem remember_master_requires_entry:
  "isMaster r \<Longrightarrow>
   (files (heap w (cache r)) (path f) = None \<longrightarrow> remember r f w = Inl TypeError)
   \<and> ((\<exists>w'. remember r f w = Inr w') \<longleftrightarrow> files (heap w (cache r)) (path f) \<noteq> None)"
  by (auto simp: remember_def Let_def split: option.splits)

theorem remember_master_requires_entry_witness:
  "isMaster master0 \<and> files (heap world1 (cache master0)) (path fileB) = None
   \<and> remember master0 fileB world1 = Inl TypeError
   \<and> files (heap world1 (cache master0)) (path fileA) \<noteq> None
   \<and> (\<exists>w'. remember master0 fileA world1 = Inr w')"
  using remember_master_requires_entry [of master0 world1 fileB]
    remember_master_requires_entry [of master0 world1 fileA]
  by (simp add: master0_def world1_def fileA_def fileB_def)

text \<open>An item forgotten between the two stages makes the master's Remember Stage throw.\<close>

lemma forget_between_stages:
  "exec id [Create (Str ''build'') None, Caching 0 fileA, Forget [Str ''build'', Str ''a.js''],
            Remember 0 fileA] init_sys = Inl TypeError"
  by (simp add: ev fileA_def)

section \<open>Falsy cache names (claim C10)\<close>

text \<open>
  Claim C10: for the cache names \<open>0\<close> and the empty string, \<^verbatim>\<open>gulpCachedRemember\<close>
  behaves as for an omitted name and attaches to the default cache, whereas
  \<^verbatim>\<open>cacheFor\<close>, \<^verbatim>\<open>forgetAll\<close> and \<^verbatim>\<open>forget\<close> with the same name address the registry
  under the literal key, which is not the default name: \<^verbatim>\<open>forgetAll\<close> removes the
  registration of that key, \<^verbatim>\<open>forget\<close> removes the entry from the cache registered under
  that key, and both leave the default cache and its registration as they were; hence
  what \<^verbatim>\<open>cacheFor\<close> returns for that name is not the cache the run is attached to.
\<close>

theorem falsy_names:
  assumes "v = Num 0 \<or> v = Str []"
  shows "gulpCachedRemember v os w = gulpCachedRemember Undefined os w
    \<and> (\<exists>r w'. gulpCachedRemember v os w = Inr (r, w') \<and> cacheName r = defaultName
          \<and> caches w' defaultName = Some (cache r)
          \<and> cacheFor [] w' = Inr (Some (cache r))
          \<and> (registry_ok w \<longrightarrow> cacheFor [v] w' \<noteq> Inr (Some (cache r))))
    \<and> to_key v \<noteq> defaultName
    \<and> cacheFor [v] w = Inr (caches w (to_key v))
    \<and> forgetAll [v] w =
        (case caches w (to_key v) of
           None \<Rightarrow> Inr (w\<lparr>trace := trace w @ [Log (CacheNotFound (to_key v))]\<rparr>)
         | Some a \<Rightarrow> Inr (w\<lparr>caches := (caches w)(to_key v := None)\<rparr>))
    \<and> forget [v, p] w = forget [Str (to_key v), p] w
    \<and> forget [v, p] w =
        (case caches w (to_key v) of
           None \<Rightarrow> Inr (w\<lparr>trace := trace w @ [Log (CacheNotFound (to_key v))]\<rparr>)
         | Some a \<Rightarrow>
             if files (heap w a) (to_key p) = None
             then Inr (w\<lparr>trace := trace w @ [Log (FileNotFound (to_key p) (to_key v))]\<rparr>)
             else Inr (w\<lparr>heap := (heap w)(a := (heap w a)
                    \<lparr>order := splice_delete1
                        (case p of Str x \<Rightarrow> indexOf (order (heap w a)) x | _ \<Rightarrow> - 1)
                        (order (heap w a)),
                      files := (files (heap w a))(to_key p := None)\<rparr>)\<rparr>))
    \<and> (caches w (to_key v) = Some a \<and> files (heap w a) (to_key p) \<noteq> None \<longrightarrow>
          (\<exists>w'. forget [v, p] w = Inr w' \<and> files (heap w' a) (to_key p) = None
                \<and> caches w' = caches w))
    \<and> (registry_ok w \<and> caches w defaultName = Some d \<longrightarrow>
          (\<exists>w'. forget [v, p] w = Inr w' \<and> heap w' d = heap w d
                \<and> caches w' defaultName = Some d)
          \<and> (\<exists>w'. forgetAll [v] w = Inr w' \<and> heap w' d = heap w d
                \<and> caches w' defaultName = Some d))"
proof -
  from assms have k: "to_key v = ''0'' \<or> to_key v = []" and tc: "\<not> typeCheck v"
    and nt: "\<not> truthy v"
    by (auto simp: string_of_int_0 typeCheck_def)
  from k have kd: "to_key v \<noteq> defaultName" by (auto simp: defaultName_def)
  have c1: "gulpCachedRemember v os w = gulpCachedRemember Undefined os w"
    using assms by (auto simp: gulpCachedRemember_def)
  have c4: "cacheFor [v] w = Inr (caches w (to_key v))"
    using tc by (simp add: cacheFor_def arg_def Let_def)
  have c5: "forgetAll [v] w =
        (case caches w (to_key v) of
           None \<Rightarrow> Inr (w\<lparr>trace := trace w @ [Log (CacheNotFound (to_key v))]\<rparr>)
         | Some a \<Rightarrow> Inr (w\<lparr>caches := (caches w)(to_key v := None)\<rparr>))"
    using tc by (simp add: forgetAll_def arg_def Let_def)
  have c6: "forget [v, p] w = forget [Str (to_key v), p] w"
    using tc by (simp add: forget_def arg_def Let_def) (simp add: typeCheck_def)
  have c7: "forget [v, p] w =
        (case caches w (to_key v) of
           None \<Rightarrow> Inr (w\<lparr>trace := trace w @ [Log (CacheNotFound (to_key v))]\<rparr>)
         | Some a \<Rightarrow>
             if files (heap w a) (to_key p) = None
             then Inr (w\<lparr>trace := trace w @ [Log (FileNotFound (to_key p) (to_key v))]\<rparr>)
             else Inr (w\<lparr>heap := (heap w)(a := (heap w a)
                    \<lparr>order := splice_delete1
                        (case p of Str x \<Rightarrow> indexOf (order (heap w a)) x | _ \<Rightarrow> - 1)
                        (order (heap w a)),
                      files := (files (heap w a))(to_key p := None)\<rparr>)\<rparr>))"
    using tc by (auto simp: forget_def arg_def Let_def split: option.splits)
  have c8: "caches w (to_key v) = Some a \<and> files (heap w a) (to_key p) \<noteq> None \<longrightarrow>
          (\<exists>w'. forget [v, p] w = Inr w' \<and> files (heap w' a) (to_key p) = None
                \<and> caches w' = caches w)"
    by (auto simp: c7)
  have c9: "registry_ok w \<and> caches w defaultName = Some d \<longrightarrow>
          (\<exists>w'. forget [v, p] w = Inr w' \<and> heap w' d = heap w d
                \<and> caches w' defaultName = Some d)
          \<and> (\<exists>w'. forgetAll [v] w = Inr w' \<and> heap w' d = heap w d
                \<and> caches w' defaultName = Some d)"
  proof (intro impI)
    assume h: "registry_ok w \<and> caches w defaultName = Some d"
    have nd: "\<And>b. caches w (to_key v) = Some b \<Longrightarrow> b \<noteq> d"
      using h kd unfolding registry_ok_def by metis
    show "(\<exists>w'. forget [v, p] w = Inr w' \<and> heap w' d = heap w d
                \<and> caches w' defaultName = Some d)
          \<and> (\<exists>w'. forgetAll [v] w = Inr w' \<and> heap w' d = heap w d
                \<and> caches w' defaultName = Some d)"
    proof (cases "caches w (to_key v)")
      case None
      with h show ?thesis by (simp add: c5 c7)
    next
      case (Some b)
      with nd[OF Some] h kd show ?thesis by (auto simp: c5 c7)
    qed
  qed
  have c2: "\<exists>r w'. gulpCachedRemember v os w = Inr (r, w') \<and> cacheName r = defaultName
          \<and> caches w' defaultName = Some (cache r)
          \<and> cacheFor [] w' = Inr (Some (cache r))
          \<and> (registry_ok w \<longrightarrow> cacheFor [v] w' \<noteq> Inr (Some (cache r)))"
  proof (cases "caches w defaultName")
    case None
    with assms kd tc show ?thesis
      by (auto simp: gulpCachedRemember_def Let_def cacheFor_def arg_def typeCheck_def
          registry_ok_def)
  next
    case (Some a)
    with assms kd tc show ?thesis
      by (auto simp: gulpCachedRemember_def Let_def cacheFor_def arg_def typeCheck_def
          registry_ok_def)
  qed
  from c1 c2 kd c4 c5 c6 c7 c8 c9 show ?thesis by blast
qed

theorem falsy_names_witness:
  "(Num 0 = Num 0 \<or> Num 0 = Str [])
   \<and> (\<exists>r w'. gulpCachedRemember (Num 0) None init_world = Inr (r, w') \<and> cacheName r = ''_default''
          \<and> caches w' ''_default'' = Some (cache r)
          \<and> cacheFor [] w' = Inr (Some (cache r))
          \<and> cacheFor [Num 0] w' = Inr None)
   \<and> cacheFor [Num 0] init_world = Inr (caches init_world ''0'')
   \<and> registry_ok init_world
   \<and> registry_ok world3 \<and> caches world3 ''_default'' = Some 0 \<and> caches world3 ''0'' = Some 1
   \<and> files (heap world3 1) ''a.js'' \<noteq> None
   \<and> cacheFor [Num 0] world3 = Inr (Some 1)
   \<and> (\<exists>w'. forget [Num 0, Str ''a.js''] world3 = Inr w'
          \<and> files (heap w' 1) ''a.js'' = None \<and> caches w' = caches world3)
   \<and> (\<exists>w'. forget [Num 0, Str ''a.js''] world3 = Inr w'
          \<and> heap w' 0 = heap world3 0 \<and> caches w' ''_default'' = Some 0)
   \<and> (\<exists>w'. forgetAll [Num 0] world3 = Inr w'
          \<and> heap w' 0 = heap world3 0 \<and> caches w' ''_default'' = Some 0)"
proof -
  have pre: "Num 0 = Num 0 \<or> Num 0 = Str []" by simp
  have key: "to_key (Num 0) = ''0''" "to_key (Str ''a.js'') = ''a.js''"
    by (simp_all add: string_of_int_0)
  have ok: "registry_ok init_world" by (simp add: registry_ok_def init_world_def)
  have ok3: "registry_ok world3"
    by (auto simp: registry_ok_def world3_def split: if_splits)
  have k3: "caches world3 ''_default'' = Some 0" "caches world3 ''0'' = Some 1"
    "files (heap world3 1) ''a.js'' \<noteq> None"
    by (simp_all add: world3_def)
  note t0 = falsy_names [where v = "Num 0" and os = None and w = init_world, OF pre]
  note t3 = falsy_names [where v = "Num 0" and os = None and w = world3
      and p = "Str ''a.js''" and a = 1 and d = 0, OF pre]
  from t0 have "\<exists>r w'. gulpCachedRemember (Num 0) None init_world = Inr (r, w')
          \<and> cacheName r = defaultName \<and> caches w' defaultName = Some (cache r)
          \<and> cacheFor [] w' = Inr (Some (cache r))
          \<and> (registry_ok init_world \<longrightarrow> cacheFor [Num 0] w' \<noteq> Inr (Some (cache r)))"
    by blast
  then obtain r w' where g: "gulpCachedRemember (Num 0) None init_world = Inr (r, w')"
    "cacheName r = defaultName" "caches w' defaultName = Some (cache r)"
    "cacheFor [] w' = Inr (Some (cache r))" by blast
  from g(1) have "cacheFor [Num 0] w' = Inr None"
    by (auto simp: string_of_int_0 defaultName_def cacheFor_def arg_def typeCheck_def
        gulpCachedRemember_def Let_def init_world_def)
  with g have a: "\<exists>r w'. gulpCachedRemember (Num 0) None init_world = Inr (r, w')
          \<and> cacheName r = ''_default''
          \<and> caches w' ''_default'' = Some (cache r)
          \<and> cacheFor [] w' = Inr (Some (cache r))
          \<and> cacheFor [Num 0] w' = Inr None"
    by (auto simp: defaultName_def)
  from t0 have "cacheFor [Num 0] init_world = Inr (caches init_world (to_key (Num 0)))" by blast
  with key have b: "cacheFor [Num 0] init_world = Inr (caches init_world ''0'')" by simp
  from t3 have "cacheFor [Num 0] world3 = Inr (caches world3 (to_key (Num 0)))" by blast
  with key k3 have c: "cacheFor [Num 0] world3 = Inr (Some 1)" by simp
  from t3 have "caches world3 (to_key (Num 0)) = Some 1
        \<and> files (heap world3 1) (to_key (Str ''a.js'')) \<noteq> None \<longrightarrow>
      (\<exists>w'. forget [Num 0, Str ''a.js''] world3 = Inr w'
          \<and> files (heap w' 1) (to_key (Str ''a.js'')) = None \<and> caches w' = caches world3)"
    by blast
  with key k3 have d: "\<exists>w'. forget [Num 0, Str ''a.js''] world3 = Inr w'
          \<and> files (heap w' 1) ''a.js'' = None \<and> caches w' = caches world3" by simp
  from t3 have "registry_ok world3 \<and> caches world3 defaultName = Some 0 \<longrightarrow>
          (\<exists>w'. forget [Num 0, Str ''a.js''] world3 = Inr w' \<and> heap w' 0 = heap world3 0
                \<and> caches w' defaultName = Some 0)
          \<and> (\<exists>w'. forgetAll [Num 0] world3 = Inr w' \<and> heap w' 0 = heap world3 0
                \<and> caches w' defaultName = Some 0)"
    by blast
  with ok3 k3 have e: "(\<exists>w'. forget [Num 0, Str ''a.js''] world3 = Inr w'
          \<and> heap w' 0 = heap world3 0 \<and> caches w' ''_default'' = Some 0)
      \<and> (\<exists>w'. forgetAll [Num 0] world3 = Inr w'
          \<and> heap w' 0 = heap world3 0 \<and> caches w' ''_default'' = Some 0)"
    by (simp add: defaultName_def)
  from pre a b ok ok3 k3 c d e show ?thesis by blast
qed

end
